theory Spec2Isabelle
  imports Complex_Main "HOL-Library.Sublist"
begin

section \<open>JavaScript values\<close>

text \<open>
  Timestamps. The source keeps every timestamp as the string \<^verbatim>\<open>Date.toISOString()\<close>
  returns (fixed width, UTC), compares them as strings in SQL (\<^verbatim>\<open>ORDER BY visited_at\<close>,
  \<^verbatim>\<open>expires_at < ?\<close>) and as \<^verbatim>\<open>Date\<close> values in the routes. On such strings both
  orders are the order of the instants, so a timestamp is modelled as the number of
  milliseconds since the epoch.
\<close>

type_synonym timestamp = int

text \<open>
  Numbers read from a JSON body are finite doubles; they are modelled as reals. Only
  comparisons with constants and the truthiness test are applied to them, so no rounding
  is involved. \<^verbatim>\<open>undefined\<close> and \<^verbatim>\<open>null\<close> are \<open>None\<close>.
\<close>

definition truthy_num :: "real option \<Rightarrow> bool" where
  \<comment> \<open>the truthiness of an optional number: \<^verbatim>\<open>undefined\<close> and \<^verbatim>\<open>0\<close> are falsy\<close>
  "truthy_num x = (case x of None \<Rightarrow> False | Some v \<Rightarrow> v \<noteq> 0)"

definition truthy_str :: "string option \<Rightarrow> bool" where
  \<comment> \<open>the truthiness of an optional string: \<^verbatim>\<open>undefined\<close> and \<^verbatim>\<open>''\<close> are falsy\<close>
  "truthy_str x = (case x of None \<Rightarrow> False | Some s \<Rightarrow> s \<noteq> [])"

definition or_num :: "real option \<Rightarrow> real option \<Rightarrow> real option" where
  \<comment> \<open>\<^verbatim>\<open>a || b\<close> on optional numbers\<close>
  "or_num a b = (if truthy_num a then a else b)"

definition or_str :: "string option \<Rightarrow> string option \<Rightarrow> string option" where
  \<comment> \<open>\<^verbatim>\<open>a || b\<close> on optional strings\<close>
  "or_str a b = (if truthy_str a then a else b)"

definition includes_str :: "string \<Rightarrow> string \<Rightarrow> bool" where
  \<comment> \<open>\<^verbatim>\<open>s.includes(m)\<close>\<close>
  "includes_str s m = sublist m s"

definition startsWith :: "string \<Rightarrow> string \<Rightarrow> bool" where
  \<comment> \<open>\<^verbatim>\<open>s.startsWith(m)\<close>\<close>
  "startsWith s m = prefix m s"

section \<open>The store (src/lib/database.ts)\<close>

text \<open>
  The rows of the two tables. Field \<^verbatim>\<open>id\<close> of a link is \<open>lid\<close> and of a visitor
  \<open>vid\<close> (the name \<open>id\<close> is HOL's identity function) and field \<^verbatim>\<open>alias\<close> is
  \<open>link_alias\<close> (a reserved word of the theory language); the other fields keep their names.
\<close>

record TrackingLink =
  lid :: string
  link_alias :: string
  original_url :: string
  description :: "string option"
  created_at :: timestamp
  expires_at :: "timestamp option"
  click_count :: int
  is_active :: bool

record Visitor =
  vid :: string
  link_id :: string
  ip_address :: string
  latitude :: "real option"
  longitude :: "real option"
  country :: "string option"
  city :: "string option"
  device :: "string option"
  browser :: "string option"
  user_agent :: "string option"
  visited_at :: timestamp

text \<open>
  The database: both tables as lists of rows in insertion order. SQL statements are
  modelled by their relational meaning; a statement the engine refuses (see
  \<^verbatim>\<open>getClickStats\<close> below) and a violated constraint of the schema
  (\<^verbatim>\<open>id TEXT PRIMARY KEY\<close>, \<^verbatim>\<open>alias TEXT UNIQUE NOT NULL\<close>,
  \<^verbatim>\<open>FOREIGN KEY (link_id) REFERENCES links (id)\<close>) makes the statement throw.
\<close>

record store =
  links :: "TrackingLink list"
  visitors :: "Visitor list"

datatype thrown = ZodError | SqliteError | BindError | FetchFailed | HttpError | JsonError | TypeError

text \<open>
  What a route answers when it does not succeed: status 400 with the validation details,
  status 400 "Alias already exists", 404, 410 and 500.
\<close>

datatype error = ValidationError | AliasConflict | NotFound | Expired | InternalError

definition createLink ::
  "store \<Rightarrow> string \<Rightarrow> timestamp \<Rightarrow> string \<Rightarrow> string \<Rightarrow> string option \<Rightarrow> timestamp option
    \<Rightarrow> thrown + (store \<times> TrackingLink)" where
  \<comment> \<open>\<open>newid\<close> is the value of \<^verbatim>\<open>uuidv4()\<close>, \<open>now\<close> of \<^verbatim>\<open>new Date()\<close>\<close>
  "createLink st newid now a originalUrl descr expiresAt =
     (if (\<exists>l \<in> set (links st). lid l = newid \<or> link_alias l = a) then Inl SqliteError
      else Inr
        (st\<lparr>links := links st @
            [\<lparr>lid = newid, link_alias = a, original_url = originalUrl,
              description = or_str descr None, created_at = now, expires_at = expiresAt,
              click_count = 0, is_active = True\<rparr>]\<rparr>,
         \<lparr>lid = newid, link_alias = a, original_url = originalUrl, description = descr,
           created_at = now, expires_at = expiresAt, click_count = 0, is_active = True\<rparr>))"

definition getLinkByAlias :: "store \<Rightarrow> string \<Rightarrow> TrackingLink option" where
  "getLinkByAlias st a = find (\<lambda>l. link_alias l = a \<and> is_active l) (links st)"

definition getLinkById :: "store \<Rightarrow> string \<Rightarrow> TrackingLink option" where
  "getLinkById st i = find (\<lambda>l. lid l = i) (links st)"

definition incrementClickCount :: "store \<Rightarrow> string \<Rightarrow> store" where
  "incrementClickCount st linkId =
     st\<lparr>links := map (\<lambda>l. if lid l = linkId then l\<lparr>click_count := click_count l + 1\<rparr> else l)
                    (links st)\<rparr>"

definition deleteLink :: "store \<Rightarrow> string \<Rightarrow> store" where
  "deleteLink st i =
     st\<lparr>links := map (\<lambda>l. if lid l = i then l\<lparr>is_active := False\<rparr> else l) (links st)\<rparr>"

section \<open>Creating a link (POST of the links route)\<close>

text \<open>
  The body of a request is the value \<^verbatim>\<open>request.json()\<close> parsed, with the fields and
  types its schema names; the schema's checks on these fields are modelled, a body that
  does not parse or has a field of another type is not.
\<close>

record create_body =
  b_alias :: string
  b_original_url :: string
  b_description :: "string option"
  b_expires_at :: "string option"

definition createLinkSchema ::
  "(string \<Rightarrow> bool) \<Rightarrow> (string \<Rightarrow> timestamp option) \<Rightarrow> create_body \<Rightarrow> bool" where
  \<comment> \<open>\<open>is_url\<close> and \<open>datetime\<close> stand for the library's checks \<^verbatim>\<open>z.string().url()\<close> and
      \<^verbatim>\<open>z.string().datetime()\<close>; \<open>datetime s\<close> is the instant of an accepted string\<close>
  "createLinkSchema is_url datetime b =
     (1 \<le> length (b_alias b) \<and> length (b_alias b) \<le> 50 \<and> is_url (b_original_url b) \<and>
      (case b_expires_at b of None \<Rightarrow> True | Some s \<Rightarrow> datetime s \<noteq> None))"

text \<open>
  A route is a function from the store to the store after the request and the answer.
\<close>

definition POST_links ::
  "(string \<Rightarrow> bool) \<Rightarrow> (string \<Rightarrow> timestamp option) \<Rightarrow> store \<Rightarrow> string \<Rightarrow> timestamp \<Rightarrow> create_body
    \<Rightarrow> store \<times> (error + TrackingLink)" where
  "POST_links is_url datetime st newid now b =
     (if \<not> createLinkSchema is_url datetime b then (st, Inl ValidationError)
      else case getLinkByAlias st (b_alias b) of
        Some existingLink \<Rightarrow> (st, Inl AliasConflict)
      | None \<Rightarrow>
          (case createLink st newid now (b_alias b) (b_original_url b) (b_description b)
                  (case b_expires_at b of None \<Rightarrow> None | Some s \<Rightarrow> datetime s) of
             Inl e \<Rightarrow> (st, Inl InternalError)
           | Inr (st', link) \<Rightarrow> (st', Inr link)))"

section \<open>Geolocation and user-agent classification (src/lib/utils/location.ts)\<close>

record LocationData =
  loc_latitude :: "real option"
  loc_longitude :: "real option"
  loc_country :: "string option"
  loc_city :: "string option"
  loc_ip :: "string option"

text \<open>
  The external lookup. \<^verbatim>\<open>fetch\<close> either rejects (network failure, timeout of the
  runtime) or resolves to a response with its \<^verbatim>\<open>ok\<close> flag and its body;
  \<^verbatim>\<open>response.json()\<close> rejects on a malformed body, yields \<^verbatim>\<open>null\<close> (every property
  access on it throws) or yields a value whose four fields are read. The model covers
  lookups that settle.
\<close>

record ipapi_data =
  d_latitude :: "real option"
  d_longitude :: "real option"
  d_country_name :: "string option"
  d_city :: "string option"

datatype json_body = JsonRejects | JsonNull | JsonValue ipapi_data

datatype fetch_outcome = FetchRejects | Response bool json_body

definition local_location :: "string \<Rightarrow> LocationData" where
  "local_location ip =
     \<lparr>loc_latitude = Some 0, loc_longitude = Some 0, loc_country = Some ''Local'',
       loc_city = Some ''Local Development'', loc_ip = Some ip\<rparr>"

definition unknown_location :: "string \<Rightarrow> LocationData" where
  "unknown_location ip =
     \<lparr>loc_latitude = None, loc_longitude = None, loc_country = Some ''Unknown'',
       loc_city = Some ''Unknown'', loc_ip = Some ip\<rparr>"

definition lookup_url :: "string \<Rightarrow> string" where
  "lookup_url ip = ''https://ipapi.co/'' @ ip @ ''/json/''"

definition getLocationFromIP_try ::
  "(string \<Rightarrow> fetch_outcome) \<Rightarrow> string \<Rightarrow> (thrown + LocationData) \<times> string list" where
  \<comment> \<open>the \<^verbatim>\<open>try\<close> block; the second component lists the URLs fetched\<close>
  "getLocationFromIP_try fetch ip =
     (if ip = ''unknown'' \<or> ip = ''127.0.0.1'' \<or> ip = ''::1'' \<or> startsWith ip ''192.168.'' \<or>
         startsWith ip ''10.'' \<or> startsWith ip ''172.''
      then (Inr (local_location ip), [])
      else
        (case fetch (lookup_url ip) of
           FetchRejects \<Rightarrow> Inl FetchFailed
         | Response ok body \<Rightarrow>
             if \<not> ok then Inl HttpError
             else (case body of
                JsonRejects \<Rightarrow> Inl JsonError
              | JsonNull \<Rightarrow> Inl TypeError
              | JsonValue data \<Rightarrow>
                  Inr \<lparr>loc_latitude = or_num (d_latitude data) None,
                        loc_longitude = or_num (d_longitude data) None,
                        loc_country = or_str (d_country_name data) None,
                        loc_city = or_str (d_city data) None,
                        loc_ip = Some ip\<rparr>),
         [lookup_url ip]))"

definition getLocationFromIP ::
  "(string \<Rightarrow> fetch_outcome) \<Rightarrow> string \<Rightarrow> LocationData \<times> string list" where
  \<comment> \<open>the whole function: the \<^verbatim>\<open>catch\<close> clause answers the unknown location\<close>
  "getLocationFromIP fetch ip =
     (case getLocationFromIP_try fetch ip of
        (Inl e, calls) \<Rightarrow> (unknown_location ip, calls)
      | (Inr loc, calls) \<Rightarrow> (loc, calls))"

text \<open>
  \<^verbatim>\<open>toLowerCase\<close>. The user-agent string is the value of an HTTP header, whose characters
  are bytes; on the code points below 256 the function maps \<^verbatim>\<open>A\<close>--\<^verbatim>\<open>Z\<close> and the
  capital letters 192--222 (but the multiplication sign 215) to the letter 32 further on.
\<close>

definition toLowerCase_char :: "char \<Rightarrow> char" where
  "toLowerCase_char c =
     (let n = (of_char c :: nat)
      in if (65 \<le> n \<and> n \<le> 90) \<or> (192 \<le> n \<and> n \<le> 222 \<and> n \<noteq> 215) then char_of (n + 32) else c)"

definition toLowerCase :: "string \<Rightarrow> string" where
  "toLowerCase s = map toLowerCase_char s"

record DeviceInfo =
  di_device :: string
  di_browser :: string
  di_userAgent :: string

definition parseUserAgent :: "string \<Rightarrow> DeviceInfo" where
  "parseUserAgent userAgent =
     (let ua = toLowerCase userAgent;
          dev = (if includes_str ua ''mobile'' \<or> includes_str ua ''android'' \<or>
                    includes_str ua ''iphone'' then ''Mobile''
                 else if includes_str ua ''tablet'' \<or> includes_str ua ''ipad'' then ''Tablet''
                 else ''Desktop'');
          br = (if includes_str ua ''chrome'' \<and> \<not> includes_str ua ''edg'' then ''Chrome''
                else if includes_str ua ''firefox'' then ''Firefox''
                else if includes_str ua ''safari'' \<and> \<not> includes_str ua ''chrome'' then ''Safari''
                else if includes_str ua ''edg'' then ''Edge''
                else if includes_str ua ''opera'' \<or> includes_str ua ''opr'' then ''Opera''
                else ''Unknown'')
      in \<lparr>di_device = dev, di_browser = br, di_userAgent = userAgent\<rparr>)"

text \<open>
  The browser rules as the specification words them: an ordered table of pairs of a
  predicate on the lower-cased string and a name, of which the first match wins.
\<close>

fun first_match :: "(('a \<Rightarrow> bool) \<times> 'b) list \<Rightarrow> 'b \<Rightarrow> 'a \<Rightarrow> 'b" where
  "first_match [] dflt x = dflt"
| "first_match ((p, r) # rules) dflt x = (if p x then r else first_match rules dflt x)"

definition spec_browser_rules :: "((string \<Rightarrow> bool) \<times> string) list" where
  "spec_browser_rules =
     [(\<lambda>ua. includes_str ua ''chrome'' \<and> \<not> includes_str ua ''edg'', ''Chrome''),
      (\<lambda>ua. includes_str ua ''firefox'', ''Firefox''),
      (\<lambda>ua. includes_str ua ''safari'' \<and> \<not> includes_str ua ''chrome'', ''Safari''),
      (\<lambda>ua. includes_str ua ''edg'', ''Edge''),
      (\<lambda>ua. includes_str ua ''opera'' \<or> includes_str ua ''opr'', ''Opera'')]"


section \<open>Recording a visit (POST of the track route)\<close>

record visitorData =
  vd_ip_address :: string
  vd_latitude :: "real option"
  vd_longitude :: "real option"
  vd_country :: "string option"
  vd_city :: "string option"
  vd_device :: "string option"
  vd_browser :: "string option"
  vd_user_agent :: "string option"

definition recordVisitor ::
  "store \<Rightarrow> string \<Rightarrow> timestamp \<Rightarrow> string \<Rightarrow> visitorData \<Rightarrow> thrown + (store \<times> Visitor)" where
  \<comment> \<open>the row inserted has \<^verbatim>\<open>|| null\<close> applied to its optional fields, the object
      returned has not\<close>
  "recordVisitor st newid now linkId vd =
     (if (\<exists>v \<in> set (visitors st). vid v = newid) \<or> \<not> (\<exists>l \<in> set (links st). lid l = linkId)
      then Inl SqliteError
      else Inr
        (st\<lparr>visitors := visitors st @
            [\<lparr>vid = newid, link_id = linkId, ip_address = vd_ip_address vd,
              latitude = or_num (vd_latitude vd) None,
              longitude = or_num (vd_longitude vd) None,
              country = or_str (vd_country vd) None,
              city = or_str (vd_city vd) None,
              device = or_str (vd_device vd) None,
              browser = or_str (vd_browser vd) None,
              user_agent = or_str (vd_user_agent vd) None,
              visited_at = now\<rparr>]\<rparr>,
         \<lparr>vid = newid, link_id = linkId, ip_address = vd_ip_address vd,
           latitude = vd_latitude vd, longitude = vd_longitude vd,
           country = vd_country vd, city = vd_city vd,
           device = vd_device vd, browser = vd_browser vd,
           user_agent = vd_user_agent vd, visited_at = now\<rparr>))"

record track_body =
  b_linkId :: string
  b_latitude :: "real option"
  b_longitude :: "real option"
  b_accuracy :: "real option"
  b_gpsEnabled :: "bool option"

definition trackVisitorSchema :: "track_body \<Rightarrow> bool" where
  "trackVisitorSchema b =
     (1 \<le> length (b_linkId b) \<and>
      (case b_latitude b of None \<Rightarrow> True | Some x \<Rightarrow> - 90 \<le> x \<and> x \<le> 90) \<and>
      (case b_longitude b of None \<Rightarrow> True | Some x \<Rightarrow> - 180 \<le> x \<and> x \<le> 180))"

definition locationData ::
  "(string \<Rightarrow> fetch_outcome) \<Rightarrow> string \<Rightarrow> track_body \<Rightarrow> LocationData \<times> string list" where
  \<comment> \<open>the variable \<^verbatim>\<open>locationData\<close> of the route after the \<^verbatim>\<open>if\<close> that may replace it
      (it has no \<^verbatim>\<open>ip\<close> field), with the URLs fetched on the way\<close>
  "locationData fetch ip b =
     (if \<not> truthy_num (b_latitude b) \<or> \<not> truthy_num (b_longitude b) \<or>
         (truthy_num (b_accuracy b) \<and> (case b_accuracy b of None \<Rightarrow> False | Some a \<Rightarrow> a > 1000))
      then
        (case getLocationFromIP fetch ip of
           (ipLocation, calls) \<Rightarrow>
             (\<lparr>loc_latitude = or_num (b_latitude b) (loc_latitude ipLocation),
               loc_longitude = or_num (b_longitude b) (loc_longitude ipLocation),
               loc_country = loc_country ipLocation,
               loc_city = loc_city ipLocation,
               loc_ip = None\<rparr>, calls))
      else
        (\<lparr>loc_latitude = b_latitude b, loc_longitude = b_longitude b,
          loc_country = None, loc_city = None, loc_ip = None\<rparr>, []))"

record track_answer =
  visitor :: Visitor
  fetched :: "string list"

definition POST_track ::
  "(string \<Rightarrow> fetch_outcome) \<Rightarrow> store \<Rightarrow> string \<Rightarrow> timestamp \<Rightarrow> timestamp \<Rightarrow> string \<Rightarrow> string option
    \<Rightarrow> track_body \<Rightarrow> store \<times> (error + track_answer)" where
  \<comment> \<open>\<open>ip\<close> is the value of \<^verbatim>\<open>getClientIP(request)\<close>, \<open>ua_header\<close> the user-agent header,
      \<open>now\<close> the clock at the expiry check and \<open>now'\<close> at the insertion, \<open>newid\<close> the value of
      \<^verbatim>\<open>uuidv4()\<close>\<close>
  "POST_track fetch st newid now now' ip ua_header b =
     (if \<not> trackVisitorSchema b then (st, Inl ValidationError)
      else case getLinkById st (b_linkId b) of
        None \<Rightarrow> (st, Inl NotFound)
      | Some link \<Rightarrow>
          if \<not> is_active link then (st, Inl NotFound)
          else if (case expires_at link of None \<Rightarrow> False | Some e \<Rightarrow> e < now)
          then (st, Inl Expired)
          else
            (let userAgent = (case or_str ua_header (Some []) of None \<Rightarrow> [] | Some u \<Rightarrow> u);
                 deviceInfo = parseUserAgent userAgent
             in case locationData fetch ip b of
               (loc, calls) \<Rightarrow>
                 (case recordVisitor st newid now' (b_linkId b)
                         \<lparr>vd_ip_address = ip,
                           vd_latitude = loc_latitude loc,
                           vd_longitude = loc_longitude loc,
                           vd_country = loc_country loc,
                           vd_city = loc_city loc,
                           vd_device = Some (di_device deviceInfo),
                           vd_browser = Some (di_browser deviceInfo),
                           vd_user_agent = Some userAgent\<rparr> of
                    Inl e \<Rightarrow> (st, Inl InternalError)
                  | Inr (st', v) \<Rightarrow>
                      (incrementClickCount st' (b_linkId b),
                       Inr \<lparr>visitor = v, fetched = calls\<rparr>))))"

section \<open>Analytics (getClickStats and GET of the analytics route)\<close>

text \<open>
  \<^verbatim>\<open>getClickStats\<close> prepares and runs its statements in turn, and a statement the
  engine refuses makes it throw.
  \<^item> The first statement counts the visits and is run as \<^verbatim>\<open>.get(linkId)\<close>. When a link
    is named the text has the clause \<^verbatim>\<open>WHERE link_id = ?\<close> and the count is read. When
    none is named the text has no parameter and the value bound is \<^verbatim>\<open>undefined\<close>, which
    the database library refuses.
  \<^item> The second statement is prepared from
    \<^verbatim>\<open>SELECT COUNT(DISTINCT ip_address) as unique FROM visitors\<close>. The word
    \<^verbatim>\<open>unique\<close> is reserved in SQLite and is not accepted as a column alias, so the text
    does not compile and \<^verbatim>\<open>prepare\<close> throws.
  \<^item> The statements after it (the countries, and the recent visits with
    \<^verbatim>\<open>ORDER BY visited_at DESC LIMIT 10\<close>) are never reached.
  So the function returns no statistics, whatever it is called with.
\<close>

definition where_link_id :: "string option \<Rightarrow> Visitor list \<Rightarrow> Visitor list" where
  \<comment> \<open>the clause \<^verbatim>\<open>WHERE link_id = ?\<close>, added when \<^verbatim>\<open>linkId\<close> is truthy\<close>
  "where_link_id linkId vs =
     (case linkId of
        None \<Rightarrow> vs
      | Some i \<Rightarrow> if i = [] then vs else filter (\<lambda>v. link_id v = i) vs)"

record ClickStats =
  totalClicks :: nat
  uniqueVisitors :: nat
  recentVisits :: "Visitor list"

definition getClickStats :: "store \<Rightarrow> string option \<Rightarrow> thrown + ClickStats" where
  "getClickStats st linkId =
     (case (if truthy_str linkId then Inr (length (where_link_id linkId (visitors st)))
            else Inl BindError) of
        Inl e \<Rightarrow> Inl e
      | Inr n \<Rightarrow> Inl SqliteError)"

text \<open>
  The numbers the route computes with: an integer, negative zero, \<^verbatim>\<open>NaN\<close> and the two
  infinities.
\<close>

datatype jsnum = Num int | NegZero | NaN | PosInfinity | NegInfinity

definition round_quotient :: "nat \<Rightarrow> jsnum \<Rightarrow> jsnum" where
  \<comment> \<open>\<^verbatim>\<open>Math.round(total / days)\<close> for a count \<open>n\<close>; \<^verbatim>\<open>Math.round\<close> takes a half
      upwards\<close>
  "round_quotient n days =
     (case days of
        NaN \<Rightarrow> NaN
      | Num d \<Rightarrow>
          if d = 0 then (if n = 0 then NaN else PosInfinity)
          else (let q = \<lfloor>(of_nat n / of_int d :: rat) + 1 / 2\<rfloor>
                in if q = 0 \<and> d < 0 then NegZero else Num q)
      | NegZero \<Rightarrow> if n = 0 then NaN else NegInfinity
      | PosInfinity \<Rightarrow> Num 0
      | NegInfinity \<Rightarrow> NegZero)"

definition valid_date :: "jsnum \<Rightarrow> bool" where
  \<comment> \<open>a \<^verbatim>\<open>Date\<close> holds an instant of at most 8.64e15 milliseconds from the epoch, or is
      invalid\<close>
  "valid_date t = (case t of Num ms \<Rightarrow> \<bar>ms\<bar> \<le> 8640000000000000 | NegZero \<Rightarrow> True | _ \<Rightarrow> False)"

definition startDate :: "timestamp \<Rightarrow> jsnum \<Rightarrow> jsnum" where
  \<comment> \<open>\<^verbatim>\<open>startDate.setDate(endDate.getDate() - days)\<close>, for a server whose local time is
      UTC\<close>
  "startDate now days =
     (case days of
        Num d \<Rightarrow> Num (now - d * 86400000)
      | NegZero \<Rightarrow> Num now
      | _ \<Rightarrow> NaN)"

record analytics =
  a_totalClicks :: nat
  a_uniqueVisitors :: nat
  avgClicksPerDay :: jsnum
  recentActivity :: "Visitor list"

definition GET_analytics ::
  "(string \<Rightarrow> jsnum) \<Rightarrow> store \<Rightarrow> timestamp \<Rightarrow> string option \<Rightarrow> string option \<Rightarrow> error + analytics" where
  \<comment> \<open>\<open>parseInt\<close> is the built-in function of that name; \<open>linkId_param\<close> and \<open>days_param\<close> are
      \<^verbatim>\<open>searchParams.get('linkId')\<close> and \<^verbatim>\<open>searchParams.get('days')\<close>. The call of
      \<^verbatim>\<open>getClickStats\<close> is inside the \<^verbatim>\<open>try\<close> of the route, whose handler answers 500. After
      it, without a link the visitors of the window are read and
      \<^verbatim>\<open>startDate.toISOString()\<close> throws on an invalid date; the timeline, demographics and
      geography entries of the answer are folds over these visitors and are left out.\<close>
  "GET_analytics parseInt st now linkId_param days_param =
     (let linkId = or_str linkId_param None;
          days = parseInt (case or_str days_param (Some ''30'') of None \<Rightarrow> [] | Some d \<Rightarrow> d)
      in case getClickStats st linkId of
           Inl e \<Rightarrow> Inl InternalError
         | Inr stats \<Rightarrow>
             if \<not> truthy_str linkId \<and> \<not> valid_date (startDate now days) then Inl InternalError
             else Inr \<lparr>a_totalClicks = totalClicks stats,
                       a_uniqueVisitors = uniqueVisitors stats,
                       avgClicksPerDay = round_quotient (totalClicks stats) days,
                       recentActivity = take 20 (recentVisits stats)\<rparr>)"

section \<open>Creating a link: a deactivated alias\<close>

lemma POST_links_active:
  assumes "createLinkSchema is_url datetime b"
    and "getLinkByAlias st (b_alias b) = Some l"
  shows "POST_links is_url datetime st newid now b = (st, Inl AliasConflict)"
  using assms by (simp add: POST_links_def)

text \<open>
  C1, evaluated where the code fails it: the only link of alias \<open>promo\<close> has been
  deactivated and a link with that alias is created. The lookup of the route, which reads
  active links only, finds no conflict; the insertion then violates the uniqueness of the
  alias column, which covers deactivated rows too, and the route answers an internal
  error where the claim has it return a new link. The store is left as it was.
\<close>

theorem create_after_deactivate_internal_error:
  "POST_links (\<lambda>u. True) (\<lambda>s. None)
     (deleteLink
        \<lparr>links = [\<lparr>lid = ''id1'', link_alias = ''promo'',
                    original_url = ''https://example.com/landing'',
                    description = None, created_at = 1000, expires_at = None,
                    click_count = 0, is_active = True\<rparr>],
          visitors = []\<rparr> ''id1'')
     ''id2'' 2000
     \<lparr>b_alias = ''promo'', b_original_url = ''https://example.com/landing'',
       b_description = None, b_expires_at = None\<rparr>
   = (\<lparr>links = [\<lparr>lid = ''id1'', link_alias = ''promo'',
                    original_url = ''https://example.com/landing'',
                    description = None, created_at = 1000, expires_at = None,
                    click_count = 0, is_active = False\<rparr>],
        visitors = []\<rparr>, Inl InternalError)"
  by (simp add: POST_links_def createLinkSchema_def getLinkByAlias_def createLink_def deleteLink_def)

section \<open>Recording a visit: rejection, effects and location\<close>

lemma getLinkById_Some_set:
  "getLinkById st i = Some l \<Longrightarrow> l \<in> set (links st) \<and> lid l = i"
  by (auto simp: getLinkById_def find_Some_iff)

lemma not_expired_iff:
  "(\<not> (case x of None \<Rightarrow> False | Some e \<Rightarrow> e < (now :: int))) = (\<forall>e. x = Some e \<longrightarrow> now \<le> e)"
  by (cases x) auto

lemma POST_track_rejected:
  "getLinkById st (b_linkId b) = None \<or>
   (\<exists>l. getLinkById st (b_linkId b) = Some l \<and> \<not> is_active l) \<Longrightarrow>
   POST_track fetch st newid now now' ip ua b =
     (st, if trackVisitorSchema b then Inl NotFound else Inl ValidationError)"
  by (auto simp: POST_track_def)

lemma POST_track_expired:
  "getLinkById st (b_linkId b) = Some l \<Longrightarrow> is_active l \<Longrightarrow> expires_at l = Some e \<Longrightarrow> e < now \<Longrightarrow>
   POST_track fetch st newid now now' ip ua b =
     (st, if trackVisitorSchema b then Inl Expired else Inl ValidationError)"
  by (auto simp: POST_track_def)

lemma POST_track_accepted:
  assumes "trackVisitorSchema b"
    and "getLinkById st (b_linkId b) = Some l"
    and "is_active l"
    and "\<not> (case expires_at l of None \<Rightarrow> False | Some e \<Rightarrow> e < now)"
  shows "POST_track fetch st newid now now' ip ua b =
     (let userAgent = (case or_str ua (Some []) of None \<Rightarrow> [] | Some u \<Rightarrow> u);
          deviceInfo = parseUserAgent userAgent;
          loc = fst (locationData fetch ip b)
      in case recordVisitor st newid now' (b_linkId b)
                \<lparr>vd_ip_address = ip,
                  vd_latitude = loc_latitude loc,
                  vd_longitude = loc_longitude loc,
                  vd_country = loc_country loc,
                  vd_city = loc_city loc,
                  vd_device = Some (di_device deviceInfo),
                  vd_browser = Some (di_browser deviceInfo),
                  vd_user_agent = Some userAgent\<rparr> of
           Inl e \<Rightarrow> (st, Inl InternalError)
         | Inr (st', v) \<Rightarrow>
             (incrementClickCount st' (b_linkId b),
              Inr \<lparr>visitor = v, fetched = snd (locationData fetch ip b)\<rparr>))"
  using assms by (simp add: POST_track_def Let_def case_prod_beta)

lemma POST_track_Inr_cases:
  assumes "POST_track fetch st newid now now' ip ua b = (st', Inr r)"
  shows "\<exists>l. trackVisitorSchema b \<and> getLinkById st (b_linkId b) = Some l \<and> is_active l \<and>
             \<not> (case expires_at l of None \<Rightarrow> False | Some e \<Rightarrow> e < now)"
  using assms by (auto simp: POST_track_def split: if_splits option.splits)

lemma recordVisitor_fresh:
  assumes "\<forall>v \<in> set (visitors st). vid v \<noteq> newid" and "l \<in> set (links st)" and "lid l = linkId"
  shows "recordVisitor st newid now linkId vd =
     Inr (st\<lparr>visitors := visitors st @
            [\<lparr>vid = newid, link_id = linkId, ip_address = vd_ip_address vd,
              latitude = or_num (vd_latitude vd) None,
              longitude = or_num (vd_longitude vd) None,
              country = or_str (vd_country vd) None,
              city = or_str (vd_city vd) None,
              device = or_str (vd_device vd) None,
              browser = or_str (vd_browser vd) None,
              user_agent = or_str (vd_user_agent vd) None,
              visited_at = now\<rparr>]\<rparr>,
         \<lparr>vid = newid, link_id = linkId, ip_address = vd_ip_address vd,
           latitude = vd_latitude vd, longitude = vd_longitude vd,
           country = vd_country vd, city = vd_city vd,
           device = vd_device vd, browser = vd_browser vd,
           user_agent = vd_user_agent vd, visited_at = now\<rparr>)"
  using assms by (auto simp: recordVisitor_def)

lemma recordVisitor_Inr:
  assumes "recordVisitor st newid now linkId vd = Inr (st1, v)"
  shows "links st1 = links st \<and>
         (\<exists>row. visitors st1 = visitors st @ [row] \<and> vid row = newid \<and> link_id row = linkId)"
  using assms by (auto simp: recordVisitor_def split: if_splits)

lemma map_update_one:
  assumes "distinct (map f (pre @ l # post))"
  shows "map (\<lambda>x. if f x = f l then g x else x) (pre @ l # post) = pre @ g l # post"
proof -
  have "f l \<notin> f ` set pre" and "f l \<notin> f ` set post"
    using assms by auto
  then have "\<forall>x \<in> set pre. f x \<noteq> f l" and "\<forall>x \<in> set post. f x \<noteq> f l"
    by (metis imageI)+
  then have "map (\<lambda>x. if f x = f l then g x else x) pre = pre"
    and "map (\<lambda>x. if f x = f l then g x else x) post = post"
    by (simp_all add: map_idI)
  then show ?thesis by simp
qed

text \<open>
  Identifiers of links stay unique: the insertion refuses a used one, and the updates
  keep every identifier.
\<close>

lemma createLink_distinct:
  assumes "distinct (map lid (links st))"
    and "createLink st newid now a u d e = Inr (st', l)"
  shows "distinct (map lid (links st'))"
  using assms by (auto simp: createLink_def split: if_splits)

lemma incrementClickCount_lids:
  "map lid (links (incrementClickCount st i)) = map lid (links st)"
  by (simp add: incrementClickCount_def comp_def if_distrib [of lid] cong: if_cong)

lemma deleteLink_lids:
  "map lid (links (deleteLink st i)) = map lid (links st)"
  by (simp add: deleteLink_def comp_def if_distrib [of lid] cong: if_cong)

lemma POST_track_recorded:
  assumes "trackVisitorSchema b"
    and "getLinkById st (b_linkId b) = Some l"
    and "is_active l"
    and "\<forall>e. expires_at l = Some e \<longrightarrow> now \<le> e"
    and "\<forall>v \<in> set (visitors st). vid v \<noteq> newid"
  shows "\<exists>v. POST_track fetch st newid now now' ip ua b =
     (incrementClickCount
        (st\<lparr>visitors := visitors st @
            [\<lparr>vid = newid, link_id = b_linkId b, ip_address = ip,
              latitude = or_num (loc_latitude (fst (locationData fetch ip b))) None,
              longitude = or_num (loc_longitude (fst (locationData fetch ip b))) None,
              country = or_str (loc_country (fst (locationData fetch ip b))) None,
              city = or_str (loc_city (fst (locationData fetch ip b))) None,
              device = or_str (Some (di_device (parseUserAgent
                  (case or_str ua (Some []) of None \<Rightarrow> [] | Some u \<Rightarrow> u)))) None,
              browser = or_str (Some (di_browser (parseUserAgent
                  (case or_str ua (Some []) of None \<Rightarrow> [] | Some u \<Rightarrow> u)))) None,
              user_agent = or_str (Some (case or_str ua (Some []) of None \<Rightarrow> [] | Some u \<Rightarrow> u)) None,
              visited_at = now'\<rparr>]\<rparr>) (b_linkId b),
      Inr \<lparr>visitor = v, fetched = snd (locationData fetch ip b)\<rparr>)"
proof -
  have ne: "\<not> (case expires_at l of None \<Rightarrow> False | Some e \<Rightarrow> e < now)"
    using assms(4) by (simp add: not_expired_iff)
  have mem: "l \<in> set (links st)" "lid l = b_linkId b"
    using getLinkById_Some_set [OF assms(2)] by simp_all
  show ?thesis
    unfolding POST_track_accepted [OF assms(1) assms(2) assms(3) ne]
    by (simp add: Let_def recordVisitor_fresh [OF assms(5) mem])
qed

lemma locationData_zero:
  assumes "b_latitude b = Some 0 \<or> b_longitude b = Some 0"
  shows "snd (locationData fetch ip b) = snd (getLocationFromIP fetch ip)"
    and "loc_country (fst (locationData fetch ip b)) = loc_country (fst (getLocationFromIP fetch ip))"
    and "loc_city (fst (locationData fetch ip b)) = loc_city (fst (getLocationFromIP fetch ip))"
    and "b_latitude b = Some 0 \<Longrightarrow>
         loc_latitude (fst (locationData fetch ip b)) = loc_latitude (fst (getLocationFromIP fetch ip))"
    and "b_longitude b = Some 0 \<Longrightarrow>
         loc_longitude (fst (locationData fetch ip b)) = loc_longitude (fst (getLocationFromIP fetch ip))"
  using assms
  by (auto simp: locationData_def truthy_num_def or_num_def case_prod_beta)

text \<open>
  C3: a track-visit request against a link that is absent or deactivated fails with
  \<open>NotFound\<close>, and one against an active link past its expiration timestamp fails with
  \<open>Expired\<close>; in both cases the store after the request is the store before it, so no
  visit row is inserted and no click counter changes. (A body that does not pass the
  schema is answered with a validation error before the link is looked at, equally
  without effect.)
\<close>

theorem track_rejects_without_effect:
  "(getLinkById st (b_linkId b) = None \<or>
    (\<exists>l. getLinkById st (b_linkId b) = Some l \<and> \<not> is_active l) \<longrightarrow>
      POST_track fetch st newid now now' ip ua b =
        (st, if trackVisitorSchema b then Inl NotFound else Inl ValidationError)) \<and>
   (\<forall>l e. getLinkById st (b_linkId b) = Some l \<and> is_active l \<and> expires_at l = Some e \<and> e < now \<longrightarrow>
      POST_track fetch st newid now now' ip ua b =
        (st, if trackVisitorSchema b then Inl Expired else Inl ValidationError))"
  using POST_track_rejected [of st b fetch newid now now' ip ua]
    POST_track_expired [of st b _ _ now fetch newid now' ip ua]
  by blast

text \<open>
  C3 at a store with a deactivated link \<open>id1\<close> and an active link \<open>id2\<close> that expired at
  1500, at time 2000: the first request is answered \<open>NotFound\<close>, the second \<open>Expired\<close>, and
  the store with its counters 3 and 5 is returned as it was.
\<close>

theorem track_rejects_without_effect_witness:
  "POST_track (\<lambda>u. FetchRejects)
     \<lparr>links = [\<lparr>lid = ''id1'', link_alias = ''promo'', original_url = ''https://example.com/a'',
                 description = None, created_at = 1000, expires_at = None,
                 click_count = 3, is_active = False\<rparr>,
               \<lparr>lid = ''id2'', link_alias = ''sale'', original_url = ''https://example.com/b'',
                 description = None, created_at = 1000, expires_at = Some 1500,
                 click_count = 5, is_active = True\<rparr>],
       visitors = []\<rparr>
     ''v1'' 2000 2001 ''203.0.113.7'' None
     \<lparr>b_linkId = ''id1'', b_latitude = None, b_longitude = None,
       b_accuracy = None, b_gpsEnabled = None\<rparr> =
   (\<lparr>links = [\<lparr>lid = ''id1'', link_alias = ''promo'', original_url = ''https://example.com/a'',
                 description = None, created_at = 1000, expires_at = None,
                 click_count = 3, is_active = False\<rparr>,
               \<lparr>lid = ''id2'', link_alias = ''sale'', original_url = ''https://example.com/b'',
                 description = None, created_at = 1000, expires_at = Some 1500,
                 click_count = 5, is_active = True\<rparr>],
       visitors = []\<rparr>, Inl NotFound) \<and>
   POST_track (\<lambda>u. FetchRejects)
     \<lparr>links = [\<lparr>lid = ''id1'', link_alias = ''promo'', original_url = ''https://example.com/a'',
                 description = None, created_at = 1000, expires_at = None,
                 click_count = 3, is_active = False\<rparr>,
               \<lparr>lid = ''id2'', link_alias = ''sale'', original_url = ''https://example.com/b'',
                 description = None, created_at = 1000, expires_at = Some 1500,
                 click_count = 5, is_active = True\<rparr>],
       visitors = []\<rparr>
     ''v1'' 2000 2001 ''203.0.113.7'' None
     \<lparr>b_linkId = ''id2'', b_latitude = None, b_longitude = None,
       b_accuracy = None, b_gpsEnabled = None\<rparr> =
   (\<lparr>links = [\<lparr>lid = ''id1'', link_alias = ''promo'', original_url = ''https://example.com/a'',
                 description = None, created_at = 1000, expires_at = None,
                 click_count = 3, is_active = False\<rparr>,
               \<lparr>lid = ''id2'', link_alias = ''sale'', original_url = ''https://example.com/b'',
                 description = None, created_at = 1000, expires_at = Some 1500,
                 click_count = 5, is_active = True\<rparr>],
       visitors = []\<rparr>, Inl Expired)"
  using
    track_rejects_without_effect [where st = "\<lparr>links = [\<lparr>lid = ''id1'', link_alias = ''promo'', original_url = ''https://example.com/a'',
                 description = None, created_at = 1000, expires_at = None,
                 click_count = 3, is_active = False\<rparr>,
               \<lparr>lid = ''id2'', link_alias = ''sale'', original_url = ''https://example.com/b'',
                 description = None, created_at = 1000, expires_at = Some 1500,
                 click_count = 5, is_active = True\<rparr>],
       visitors = []\<rparr>"
      and b = "\<lparr>b_linkId = ''id1'', b_latitude = None, b_longitude = None,
       b_accuracy = None, b_gpsEnabled = None\<rparr>"
      and fetch = "\<lambda>u. FetchRejects" and newid = "''v1''" and now = 2000 and now' = 2001
      and ip = "''203.0.113.7''" and ua = "None"]
    track_rejects_without_effect [where st = "\<lparr>links = [\<lparr>lid = ''id1'', link_alias = ''promo'', original_url = ''https://example.com/a'',
                 description = None, created_at = 1000, expires_at = None,
                 click_count = 3, is_active = False\<rparr>,
               \<lparr>lid = ''id2'', link_alias = ''sale'', original_url = ''https://example.com/b'',
                 description = None, created_at = 1000, expires_at = Some 1500,
                 click_count = 5, is_active = True\<rparr>],
       visitors = []\<rparr>"
      and b = "\<lparr>b_linkId = ''id2'', b_latitude = None, b_longitude = None,
       b_accuracy = None, b_gpsEnabled = None\<rparr>"
      and fetch = "\<lambda>u. FetchRejects" and newid = "''v1''" and now = 2000 and now' = 2001
      and ip = "''203.0.113.7''" and ua = "None"]
  by (simp add: getLinkById_def trackVisitorSchema_def)

text \<open>
  C9: a successful track-visit request appends exactly one visit row, of the new
  identifier and of the requested link, to the visitors and leaves the earlier rows as
  they were; every link keeps all its fields but the click counter, which grows by one
  for the link of the request and not at all for the others. With identifiers unique
  (the primary key), exactly one link row changes.
\<close>

theorem track_success_frame:
  assumes "POST_track fetch st newid now now' ip ua b = (st', Inr r)"
  shows "(\<exists>row. visitors st' = visitors st @ [row] \<and> vid row = newid \<and> link_id row = b_linkId b) \<and>
         links st' = map (\<lambda>l. if lid l = b_linkId b then l\<lparr>click_count := click_count l + 1\<rparr> else l)
                       (links st) \<and>
         (distinct (map lid (links st)) \<longrightarrow>
            (\<exists>pre l post. links st = pre @ l # post \<and> lid l = b_linkId b \<and>
               links st' = pre @ l\<lparr>click_count := click_count l + 1\<rparr> # post))"
proof -
  obtain l where ok: "trackVisitorSchema b" "getLinkById st (b_linkId b) = Some l" "is_active l"
      "\<not> (case expires_at l of None \<Rightarrow> False | Some e \<Rightarrow> e < now)"
    using POST_track_Inr_cases [OF assms] by blast
  from assms obtain st1 v vd where rv: "recordVisitor st newid now' (b_linkId b) vd = Inr (st1, v)"
    and st': "st' = incrementClickCount st1 (b_linkId b)"
    unfolding POST_track_accepted [OF ok]
    by (auto simp: Let_def split: sum.splits)
  have l1: "links st1 = links st"
    and vis: "\<exists>row. visitors st1 = visitors st @ [row] \<and> vid row = newid \<and> link_id row = b_linkId b"
    using recordVisitor_Inr [OF rv] by simp_all
  have visitors': "visitors st' = visitors st1"
    and links': "links st' = map (\<lambda>l. if lid l = b_linkId b then l\<lparr>click_count := click_count l + 1\<rparr> else l)
                       (links st)"
    using st' l1 by (simp_all add: incrementClickCount_def)
  have split: "\<exists>pre l post. links st = pre @ l # post \<and> lid l = b_linkId b \<and>
               links st' = pre @ l\<lparr>click_count := click_count l + 1\<rparr> # post"
    if d: "distinct (map lid (links st))"
  proof -
    have "l \<in> set (links st)" and lid: "lid l = b_linkId b"
      using getLinkById_Some_set [OF ok(2)] by simp_all
    then obtain pre post where eq: "links st = pre @ l # post"
      by (auto dest: split_list)
    have "map (\<lambda>x. if lid x = lid l then x\<lparr>click_count := click_count x + 1\<rparr> else x) (pre @ l # post)
          = pre @ l\<lparr>click_count := click_count l + 1\<rparr> # post"
      using d unfolding eq by (rule map_update_one)
    then show ?thesis
      using eq lid links' by auto
  qed
  show ?thesis
    using vis visitors' links' split by simp
qed

text \<open>
  C9 at a store with one active link and no visit: a request with an accurate device fix
  succeeds, the store after it has one visit row and the link's counter at 1.
\<close>

theorem track_success_frame_witness:
  "POST_track (\<lambda>u. Response True (JsonValue \<lparr>d_latitude = Some 48.5, d_longitude = Some 2.25,
           d_country_name = Some ''France'', d_city = Some ''Paris''\<rparr>))
     \<lparr>links = [\<lparr>lid = ''id1'', link_alias = ''promo'',
                 original_url = ''https://example.com/landing'',
                 description = None, created_at = 1000, expires_at = None,
                 click_count = 0, is_active = True\<rparr>],
       visitors = []\<rparr>
     ''v1'' 2000 2001 ''203.0.113.7'' (Some ''Mozilla/5.0 Chrome/120.0'')
     \<lparr>b_linkId = ''id1'', b_latitude = Some 40, b_longitude = Some (- 74),
       b_accuracy = Some 50, b_gpsEnabled = Some True\<rparr> =
   (\<lparr>links = [\<lparr>lid = ''id1'', link_alias = ''promo'',
                 original_url = ''https://example.com/landing'',
                 description = None, created_at = 1000, expires_at = None,
                 click_count = 1, is_active = True\<rparr>],
       visitors = [\<lparr>vid = ''v1'', link_id = ''id1'', ip_address = ''203.0.113.7'',
           latitude = Some 40, longitude = Some (- 74), country = None, city = None,
           device = Some ''Desktop'', browser = Some ''Chrome'',
           user_agent = Some ''Mozilla/5.0 Chrome/120.0'', visited_at = 2001\<rparr>]\<rparr>,
    Inr \<lparr>visitor = \<lparr>vid = ''v1'', link_id = ''id1'', ip_address = ''203.0.113.7'',
           latitude = Some 40, longitude = Some (- 74), country = None, city = None,
           device = Some ''Desktop'', browser = Some ''Chrome'',
           user_agent = Some ''Mozilla/5.0 Chrome/120.0'', visited_at = 2001\<rparr>, fetched = []\<rparr>) \<and>
   distinct (map lid (links \<lparr>links = [\<lparr>lid = ''id1'', link_alias = ''promo'',
                 original_url = ''https://example.com/landing'',
                 description = None, created_at = 1000, expires_at = None,
                 click_count = 0, is_active = True\<rparr>],
       visitors = []\<rparr>)) \<and>
   (\<exists>pre l post. links \<lparr>links = [\<lparr>lid = ''id1'', link_alias = ''promo'',
                 original_url = ''https://example.com/landing'',
                 description = None, created_at = 1000, expires_at = None,
                 click_count = 0, is_active = True\<rparr>],
       visitors = []\<rparr> = pre @ l # post \<and> lid l = ''id1'' \<and>
      links \<lparr>links = [\<lparr>lid = ''id1'', link_alias = ''promo'',
                 original_url = ''https://example.com/landing'',
                 description = None, created_at = 1000, expires_at = None,
                 click_count = 1, is_active = True\<rparr>],
       visitors = [\<lparr>vid = ''v1'', link_id = ''id1'', ip_address = ''203.0.113.7'',
           latitude = Some 40, longitude = Some (- 74), country = None, city = None,
           device = Some ''Desktop'', browser = Some ''Chrome'',
           user_agent = Some ''Mozilla/5.0 Chrome/120.0'', visited_at = 2001\<rparr>]\<rparr> = pre @ l\<lparr>click_count := click_count l + 1\<rparr> # post)"
proof -
  have h: "POST_track (\<lambda>u. Response True (JsonValue \<lparr>d_latitude = Some 48.5, d_longitude = Some 2.25,
           d_country_name = Some ''France'', d_city = Some ''Paris''\<rparr>))
     \<lparr>links = [\<lparr>lid = ''id1'', link_alias = ''promo'',
                 original_url = ''https://example.com/landing'',
                 description = None, created_at = 1000, expires_at = None,
                 click_count = 0, is_active = True\<rparr>],
       visitors = []\<rparr>
     ''v1'' 2000 2001 ''203.0.113.7'' (Some ''Mozilla/5.0 Chrome/120.0'')
     \<lparr>b_linkId = ''id1'', b_latitude = Some 40, b_longitude = Some (- 74),
       b_accuracy = Some 50, b_gpsEnabled = Some True\<rparr> =
   (\<lparr>links = [\<lparr>lid = ''id1'', link_alias = ''promo'',
                 original_url = ''https://example.com/landing'',
                 description = None, created_at = 1000, expires_at = None,
                 click_count = 1, is_active = True\<rparr>],
       visitors = [\<lparr>vid = ''v1'', link_id = ''id1'', ip_address = ''203.0.113.7'',
           latitude = Some 40, longitude = Some (- 74), country = None, city = None,
           device = Some ''Desktop'', browser = Some ''Chrome'',
           user_agent = Some ''Mozilla/5.0 Chrome/120.0'', visited_at = 2001\<rparr>]\<rparr>,
    Inr \<lparr>visitor = \<lparr>vid = ''v1'', link_id = ''id1'', ip_address = ''203.0.113.7'',
           latitude = Some 40, longitude = Some (- 74), country = None, city = None,
           device = Some ''Desktop'', browser = Some ''Chrome'',
           user_agent = Some ''Mozilla/5.0 Chrome/120.0'', visited_at = 2001\<rparr>, fetched = []\<rparr>)"
    by code_simp
  have d: "distinct (map lid (links \<lparr>links = [\<lparr>lid = ''id1'', link_alias = ''promo'',
                 original_url = ''https://example.com/landing'',
                 description = None, created_at = 1000, expires_at = None,
                 click_count = 0, is_active = True\<rparr>],
       visitors = []\<rparr>))"
    by simp
  show ?thesis
    using h d track_success_frame [OF h] by simp
qed

text \<open>
  C4, evaluated where it fails: a request with an accurate device fix on the equator
  (latitude 0, longitude -78.5, accuracy 10) from a public address that the lookup places
  in Paris. The route takes the zero latitude for a missing one, asks the resolver, and
  the row it stores has the resolver's latitude 48.5 with the device's longitude, and
  the resolver's country and city.
\<close>

theorem equator_fix_replaced_by_ip_location:
  "POST_track (\<lambda>u. Response True (JsonValue \<lparr>d_latitude = Some 48.5, d_longitude = Some 2.25,
           d_country_name = Some ''France'', d_city = Some ''Paris''\<rparr>))
     \<lparr>links = [\<lparr>lid = ''id1'', link_alias = ''promo'',
                 original_url = ''https://example.com/landing'',
                 description = None, created_at = 1000, expires_at = None,
                 click_count = 0, is_active = True\<rparr>],
       visitors = []\<rparr>
     ''v1'' 2000 2001 ''203.0.113.7'' (Some ''Mozilla/5.0 Chrome/120.0'')
     \<lparr>b_linkId = ''id1'', b_latitude = Some 0, b_longitude = Some (- 78.5),
       b_accuracy = Some 10, b_gpsEnabled = Some True\<rparr>
   = (\<lparr>links = [\<lparr>lid = ''id1'', link_alias = ''promo'',
                 original_url = ''https://example.com/landing'',
                 description = None, created_at = 1000, expires_at = None,
                 click_count = 1, is_active = True\<rparr>],
       visitors = [\<lparr>vid = ''v1'', link_id = ''id1'', ip_address = ''203.0.113.7'',
           latitude = Some 48.5, longitude = Some (- 78.5), country = Some ''France'', city = Some ''Paris'',
           device = Some ''Desktop'', browser = Some ''Chrome'',
           user_agent = Some ''Mozilla/5.0 Chrome/120.0'', visited_at = 2001\<rparr>]\<rparr>,
      Inr \<lparr>visitor = \<lparr>vid = ''v1'', link_id = ''id1'', ip_address = ''203.0.113.7'',
           latitude = Some 48.5, longitude = Some (- 78.5), country = Some ''France'', city = Some ''Paris'',
           device = Some ''Desktop'', browser = Some ''Chrome'',
           user_agent = Some ''Mozilla/5.0 Chrome/120.0'', visited_at = 2001\<rparr>,
         fetched = [''https://ipapi.co/203.0.113.7/json/'']\<rparr>)"
  by code_simp

text \<open>
  C10: when the device-supplied latitude or longitude of an accepted track-visit request
  is 0, whatever the accuracy, the route asks the IP-based resolver: the lookups made are
  the resolver's, the stored country and city are the resolver's, and a zero coordinate
  is replaced by the resolver's value, or left absent when the resolver has none (or has
  zero).
\<close>

theorem zero_coordinate_treated_as_absent:
  assumes "trackVisitorSchema b"
    and "getLinkById st (b_linkId b) = Some l"
    and "is_active l"
    and "\<forall>e. expires_at l = Some e \<longrightarrow> now \<le> e"
    and "\<forall>v \<in> set (visitors st). vid v \<noteq> newid"
    and "b_latitude b = Some 0 \<or> b_longitude b = Some 0"
  shows "\<exists>st' v row.
     POST_track fetch st newid now now' ip ua b =
       (st', Inr \<lparr>visitor = v, fetched = snd (getLocationFromIP fetch ip)\<rparr>) \<and>
     visitors st' = visitors st @ [row] \<and>
     country row = or_str (loc_country (fst (getLocationFromIP fetch ip))) None \<and>
     city row = or_str (loc_city (fst (getLocationFromIP fetch ip))) None \<and>
     (b_latitude b = Some 0 \<longrightarrow>
        latitude row = or_num (loc_latitude (fst (getLocationFromIP fetch ip))) None) \<and>
     (b_longitude b = Some 0 \<longrightarrow>
        longitude row = or_num (loc_longitude (fst (getLocationFromIP fetch ip))) None)"
proof -
  obtain v where "POST_track fetch st newid now now' ip ua b =
     (incrementClickCount
        (st\<lparr>visitors := visitors st @
            [\<lparr>vid = newid, link_id = b_linkId b, ip_address = ip,
              latitude = or_num (loc_latitude (fst (locationData fetch ip b))) None,
              longitude = or_num (loc_longitude (fst (locationData fetch ip b))) None,
              country = or_str (loc_country (fst (locationData fetch ip b))) None,
              city = or_str (loc_city (fst (locationData fetch ip b))) None,
              device = or_str (Some (di_device (parseUserAgent
                  (case or_str ua (Some []) of None \<Rightarrow> [] | Some u \<Rightarrow> u)))) None,
              browser = or_str (Some (di_browser (parseUserAgent
                  (case or_str ua (Some []) of None \<Rightarrow> [] | Some u \<Rightarrow> u)))) None,
              user_agent = or_str (Some (case or_str ua (Some []) of None \<Rightarrow> [] | Some u \<Rightarrow> u)) None,
              visited_at = now'\<rparr>]\<rparr>) (b_linkId b),
      Inr \<lparr>visitor = v, fetched = snd (locationData fetch ip b)\<rparr>)"
    using POST_track_recorded [OF assms(1-5)] by blast
  then show ?thesis
    using locationData_zero [OF assms(6), of fetch ip]
    by (simp add: incrementClickCount_def)
qed

text \<open>
  C10 at the request of the equator fix: the stored row has the country, the city and
  the latitude of the resolver.
\<close>

theorem zero_coordinate_treated_as_absent_witness:
  "\<exists>st' v row.
     POST_track (\<lambda>u. Response True (JsonValue \<lparr>d_latitude = Some 48.5, d_longitude = Some 2.25,
           d_country_name = Some ''France'', d_city = Some ''Paris''\<rparr>))
     \<lparr>links = [\<lparr>lid = ''id1'', link_alias = ''promo'',
                 original_url = ''https://example.com/landing'',
                 description = None, created_at = 1000, expires_at = None,
                 click_count = 0, is_active = True\<rparr>],
       visitors = []\<rparr>
     ''v1'' 2000 2001 ''203.0.113.7'' (Some ''Mozilla/5.0 Chrome/120.0'')
     \<lparr>b_linkId = ''id1'', b_latitude = Some 0, b_longitude = Some (- 78.5),
       b_accuracy = Some 10, b_gpsEnabled = Some True\<rparr> =
       (st', Inr \<lparr>visitor = v, fetched = snd (getLocationFromIP (\<lambda>u. Response True (JsonValue \<lparr>d_latitude = Some 48.5, d_longitude = Some 2.25,
           d_country_name = Some ''France'', d_city = Some ''Paris''\<rparr>)) ''203.0.113.7'')\<rparr>) \<and>
     visitors st' = visitors \<lparr>links = [\<lparr>lid = ''id1'', link_alias = ''promo'',
                 original_url = ''https://example.com/landing'',
                 description = None, created_at = 1000, expires_at = None,
                 click_count = 0, is_active = True\<rparr>],
       visitors = []\<rparr> @ [row] \<and>
     country row = Some ''France'' \<and> city row = Some ''Paris'' \<and> latitude row = Some 48.5"
proof -
  have loc: "getLocationFromIP (\<lambda>u. Response True (JsonValue \<lparr>d_latitude = Some 48.5, d_longitude = Some 2.25,
           d_country_name = Some ''France'', d_city = Some ''Paris''\<rparr>)) ''203.0.113.7'' =
      (\<lparr>loc_latitude = Some 48.5, loc_longitude = Some 2.25, loc_country = Some ''France'',
         loc_city = Some ''Paris'', loc_ip = Some ''203.0.113.7''\<rparr>,
       [''https://ipapi.co/203.0.113.7/json/''])"
    by code_simp
  have h1: "trackVisitorSchema \<lparr>b_linkId = ''id1'', b_latitude = Some 0, b_longitude = Some (- 78.5),
       b_accuracy = Some 10, b_gpsEnabled = Some True\<rparr>"
    by (simp add: trackVisitorSchema_def)
  have h2: "getLinkById \<lparr>links = [\<lparr>lid = ''id1'', link_alias = ''promo'',
                 original_url = ''https://example.com/landing'',
                 description = None, created_at = 1000, expires_at = None,
                 click_count = 0, is_active = True\<rparr>],
       visitors = []\<rparr> (b_linkId \<lparr>b_linkId = ''id1'', b_latitude = Some 0, b_longitude = Some (- 78.5),
       b_accuracy = Some 10, b_gpsEnabled = Some True\<rparr>) = Some \<lparr>lid = ''id1'', link_alias = ''promo'',
                 original_url = ''https://example.com/landing'',
                 description = None, created_at = 1000, expires_at = None,
                 click_count = 0, is_active = True\<rparr>"
    by (simp add: getLinkById_def)
  have h3: "is_active \<lparr>lid = ''id1'', link_alias = ''promo'',
                 original_url = ''https://example.com/landing'',
                 description = None, created_at = 1000, expires_at = None,
                 click_count = 0, is_active = True\<rparr>"
    by simp
  have h4: "\<forall>e. expires_at \<lparr>lid = ''id1'', link_alias = ''promo'',
                 original_url = ''https://example.com/landing'',
                 description = None, created_at = 1000, expires_at = None,
                 click_count = 0, is_active = True\<rparr> = Some e \<longrightarrow> 2000 \<le> e"
    by simp
  have h5: "\<forall>v \<in> set (visitors \<lparr>links = [\<lparr>lid = ''id1'', link_alias = ''promo'',
                 original_url = ''https://example.com/landing'',
                 description = None, created_at = 1000, expires_at = None,
                 click_count = 0, is_active = True\<rparr>],
       visitors = []\<rparr>). vid v \<noteq> ''v1''"
    by simp
  have h6: "b_latitude \<lparr>b_linkId = ''id1'', b_latitude = Some 0, b_longitude = Some (- 78.5),
       b_accuracy = Some 10, b_gpsEnabled = Some True\<rparr> = Some 0 \<or> b_longitude \<lparr>b_linkId = ''id1'', b_latitude = Some 0, b_longitude = Some (- 78.5),
       b_accuracy = Some 10, b_gpsEnabled = Some True\<rparr> = Some 0"
    by simp
  show ?thesis
    using zero_coordinate_treated_as_absent [OF h1 h2 h3 h4 h5 h6,
        where fetch = "\<lambda>u. Response True (JsonValue \<lparr>d_latitude = Some 48.5, d_longitude = Some 2.25,
           d_country_name = Some ''France'', d_city = Some ''Paris''\<rparr>)" and now' = 2001 and ip = "''203.0.113.7''"
          and ua = "Some ''Mozilla/5.0 Chrome/120.0''"]
    unfolding loc by (simp add: or_str_def or_num_def truthy_str_def truthy_num_def)
qed

section \<open>Geolocation: failures and local addresses\<close>

lemma getLocationFromIP_catch:
  "fst (getLocationFromIP_try fetch ip) = Inl e \<Longrightarrow>
   getLocationFromIP fetch ip = (unknown_location ip, snd (getLocationFromIP_try fetch ip))"
  by (cases "getLocationFromIP_try fetch ip") (simp add: getLocationFromIP_def)

lemma lookup_error_unknown:
  assumes "fetch (lookup_url ip) = FetchRejects \<or> (\<exists>body. fetch (lookup_url ip) = Response False body) \<or>
           fetch (lookup_url ip) = Response True JsonRejects"
    and "snd (getLocationFromIP fetch ip) \<noteq> []"
  shows "getLocationFromIP fetch ip = (unknown_location ip, [lookup_url ip])"
  using assms
  by (auto simp: getLocationFromIP_def getLocationFromIP_try_def split: if_splits)

text \<open>
  C6: the resolver never propagates a failure. Whatever is thrown inside its
  \<^verbatim>\<open>try\<close> block, it answers the unknown location (no coordinates, country and city
  \<open>Unknown\<close>); in particular when a lookup is made and the request is rejected (network
  failure or timeout), the status is not a success, or the body is malformed. And
  whatever the lookup does, a valid track-visit request against an active, unexpired
  link is answered with a visit, one row being added: a failed lookup does not abort the
  recording.
\<close>

theorem lookup_failure_absorbed:
  "(\<forall>e. fst (getLocationFromIP_try fetch ip) = Inl e \<longrightarrow>
      fst (getLocationFromIP fetch ip) =
        \<lparr>loc_latitude = None, loc_longitude = None, loc_country = Some ''Unknown'',
          loc_city = Some ''Unknown'', loc_ip = Some ip\<rparr>) \<and>
   ((fetch (lookup_url ip) = FetchRejects \<or> (\<exists>body. fetch (lookup_url ip) = Response False body) \<or>
     fetch (lookup_url ip) = Response True JsonRejects) \<and> snd (getLocationFromIP fetch ip) \<noteq> [] \<longrightarrow>
      getLocationFromIP fetch ip =
        (\<lparr>loc_latitude = None, loc_longitude = None, loc_country = Some ''Unknown'',
           loc_city = Some ''Unknown'', loc_ip = Some ip\<rparr>, [lookup_url ip])) \<and>
   (trackVisitorSchema b \<and> getLinkById st (b_linkId b) = Some l \<and> is_active l \<and>
    (\<forall>e. expires_at l = Some e \<longrightarrow> now \<le> e) \<and> (\<forall>v \<in> set (visitors st). vid v \<noteq> newid) \<longrightarrow>
      (\<exists>st' r row. POST_track fetch st newid now now' ip ua b = (st', Inr r) \<and>
         visitors st' = visitors st @ [row]))"
proof (intro conjI allI impI)
  fix e assume "fst (getLocationFromIP_try fetch ip) = Inl e"
  then show "fst (getLocationFromIP fetch ip) =
        \<lparr>loc_latitude = None, loc_longitude = None, loc_country = Some ''Unknown'',
          loc_city = Some ''Unknown'', loc_ip = Some ip\<rparr>"
    using getLocationFromIP_catch [of fetch ip e] by (simp add: unknown_location_def)
next
  assume "(fetch (lookup_url ip) = FetchRejects \<or> (\<exists>body. fetch (lookup_url ip) = Response False body) \<or>
     fetch (lookup_url ip) = Response True JsonRejects) \<and> snd (getLocationFromIP fetch ip) \<noteq> []"
  then show "getLocationFromIP fetch ip =
        (\<lparr>loc_latitude = None, loc_longitude = None, loc_country = Some ''Unknown'',
           loc_city = Some ''Unknown'', loc_ip = Some ip\<rparr>, [lookup_url ip])"
    using lookup_error_unknown [of fetch ip] by (simp add: unknown_location_def)
next
  assume a: "trackVisitorSchema b \<and> getLinkById st (b_linkId b) = Some l \<and> is_active l \<and>
    (\<forall>e. expires_at l = Some e \<longrightarrow> now \<le> e) \<and> (\<forall>v \<in> set (visitors st). vid v \<noteq> newid)"
  then obtain v where "POST_track fetch st newid now now' ip ua b =
     (incrementClickCount
        (st\<lparr>visitors := visitors st @
            [\<lparr>vid = newid, link_id = b_linkId b, ip_address = ip,
              latitude = or_num (loc_latitude (fst (locationData fetch ip b))) None,
              longitude = or_num (loc_longitude (fst (locationData fetch ip b))) None,
              country = or_str (loc_country (fst (locationData fetch ip b))) None,
              city = or_str (loc_city (fst (locationData fetch ip b))) None,
              device = or_str (Some (di_device (parseUserAgent
                  (case or_str ua (Some []) of None \<Rightarrow> [] | Some u \<Rightarrow> u)))) None,
              browser = or_str (Some (di_browser (parseUserAgent
                  (case or_str ua (Some []) of None \<Rightarrow> [] | Some u \<Rightarrow> u)))) None,
              user_agent = or_str (Some (case or_str ua (Some []) of None \<Rightarrow> [] | Some u \<Rightarrow> u)) None,
              visited_at = now'\<rparr>]\<rparr>) (b_linkId b),
      Inr \<lparr>visitor = v, fetched = snd (locationData fetch ip b)\<rparr>)"
    using POST_track_recorded [of b st l now newid fetch now' ip ua] by blast
  then show "\<exists>st' r row. POST_track fetch st newid now now' ip ua b = (st', Inr r) \<and>
         visitors st' = visitors st @ [row]"
    by (simp add: incrementClickCount_def)
qed

text \<open>
  C6 at a lookup that is rejected, for a public address: the resolver answers the unknown
  location after its one lookup, and the track-visit request without device coordinates
  is answered with a visit.
\<close>

theorem lookup_failure_absorbed_witness:
  "getLocationFromIP (\<lambda>u. FetchRejects) ''203.0.113.7'' =
     (\<lparr>loc_latitude = None, loc_longitude = None, loc_country = Some ''Unknown'',
        loc_city = Some ''Unknown'', loc_ip = Some ''203.0.113.7''\<rparr>,
      [''https://ipapi.co/203.0.113.7/json/'']) \<and>
   (\<exists>st' r row. POST_track (\<lambda>u. FetchRejects)
     \<lparr>links = [\<lparr>lid = ''id1'', link_alias = ''promo'',
                 original_url = ''https://example.com/landing'',
                 description = None, created_at = 1000, expires_at = None,
                 click_count = 0, is_active = True\<rparr>],
       visitors = []\<rparr>
     ''v1'' 2000 2001 ''203.0.113.7'' (Some ''Mozilla/5.0 Chrome/120.0'')
     \<lparr>b_linkId = ''id1'', b_latitude = None, b_longitude = None,
       b_accuracy = None, b_gpsEnabled = Some True\<rparr> = (st', Inr r) \<and>
      visitors st' = visitors \<lparr>links = [\<lparr>lid = ''id1'', link_alias = ''promo'',
                 original_url = ''https://example.com/landing'',
                 description = None, created_at = 1000, expires_at = None,
                 click_count = 0, is_active = True\<rparr>],
       visitors = []\<rparr> @ [row])"
proof -
  have calls: "snd (getLocationFromIP (\<lambda>u. FetchRejects) ''203.0.113.7'') \<noteq> []"
    by code_simp
  have url: "lookup_url ''203.0.113.7'' = ''https://ipapi.co/203.0.113.7/json/''"
    by (simp add: lookup_url_def)
  have h1: "trackVisitorSchema \<lparr>b_linkId = ''id1'', b_latitude = None, b_longitude = None,
       b_accuracy = None, b_gpsEnabled = Some True\<rparr>"
    by (simp add: trackVisitorSchema_def)
  have h2: "getLinkById \<lparr>links = [\<lparr>lid = ''id1'', link_alias = ''promo'',
                 original_url = ''https://example.com/landing'',
                 description = None, created_at = 1000, expires_at = None,
                 click_count = 0, is_active = True\<rparr>],
       visitors = []\<rparr> (b_linkId \<lparr>b_linkId = ''id1'', b_latitude = None, b_longitude = None,
       b_accuracy = None, b_gpsEnabled = Some True\<rparr>) = Some \<lparr>lid = ''id1'', link_alias = ''promo'',
                 original_url = ''https://example.com/landing'',
                 description = None, created_at = 1000, expires_at = None,
                 click_count = 0, is_active = True\<rparr>"
    by (simp add: getLinkById_def)
  show ?thesis
    using calls h1 h2
      lookup_failure_absorbed [where st = "\<lparr>links = [\<lparr>lid = ''id1'', link_alias = ''promo'',
                 original_url = ''https://example.com/landing'',
                 description = None, created_at = 1000, expires_at = None,
                 click_count = 0, is_active = True\<rparr>],
       visitors = []\<rparr>"
      and b = "\<lparr>b_linkId = ''id1'', b_latitude = None, b_longitude = None,
       b_accuracy = None, b_gpsEnabled = Some True\<rparr>"
      and fetch = "\<lambda>u. FetchRejects" and newid = "''v1''" and now = 2000 and now' = 2001
      and ip = "''203.0.113.7''" and ua = "Some ''Mozilla/5.0 Chrome/120.0''"
      and l = "\<lparr>lid = ''id1'', link_alias = ''promo'',
                 original_url = ''https://example.com/landing'',
                 description = None, created_at = 1000, expires_at = None,
                 click_count = 0, is_active = True\<rparr>"]
    unfolding url by simp
qed

text \<open>
  C7: for the loopback addresses \<open>127.0.0.1\<close> and \<open>::1\<close> and every address that begins
  with \<open>192.168.\<close>, \<open>10.\<close> or \<open>172.\<close>, the resolver answers the local location (zero
  coordinates, country \<open>Local\<close>, city \<open>Local Development\<close>) and makes no lookup, whatever
  the lookup would have answered.
\<close>

theorem local_address_short_circuit:
  assumes "ip = ''127.0.0.1'' \<or> ip = ''::1'' \<or> (\<exists>x. ip = ''192.168.'' @ x) \<or>
           (\<exists>x. ip = ''10.'' @ x) \<or> (\<exists>x. ip = ''172.'' @ x)"
  shows "getLocationFromIP fetch ip =
     (\<lparr>loc_latitude = Some 0, loc_longitude = Some 0, loc_country = Some ''Local'',
       loc_city = Some ''Local Development'', loc_ip = Some ip\<rparr>, [])"
proof -
  have "ip = ''127.0.0.1'' \<or> ip = ''::1'' \<or> startsWith ip ''192.168.'' \<or>
        startsWith ip ''10.'' \<or> startsWith ip ''172.''"
    using assms unfolding startsWith_def prefix_def by blast
  then show ?thesis
    by (auto simp: getLocationFromIP_def getLocationFromIP_try_def local_location_def)
qed

text \<open>
  C7 at the private address \<open>192.168.1.20\<close>, with a lookup that would be rejected.
\<close>

theorem local_address_short_circuit_witness:
  "(\<exists>x. ''192.168.1.20'' = ''192.168.'' @ x) \<and>
   getLocationFromIP (\<lambda>u. FetchRejects) ''192.168.1.20'' =
     (\<lparr>loc_latitude = Some 0, loc_longitude = Some 0, loc_country = Some ''Local'',
       loc_city = Some ''Local Development'', loc_ip = Some ''192.168.1.20''\<rparr>, [])"
proof -
  have h: "\<exists>x. ''192.168.1.20'' = ''192.168.'' @ x"
    by simp
  then have "''192.168.1.20'' = ''127.0.0.1'' \<or> ''192.168.1.20'' = ''::1'' \<or>
      (\<exists>x. ''192.168.1.20'' = ''192.168.'' @ x) \<or> (\<exists>x. ''192.168.1.20'' = ''10.'' @ x) \<or>
      (\<exists>x. ''192.168.1.20'' = ''172.'' @ x)"
    by blast
  from local_address_short_circuit [OF this, of "\<lambda>u. FetchRejects"] h
  show ?thesis by blast
qed

section \<open>Browser classification\<close>

text \<open>
  C8, as the specification states it, fails in its last part: a string with the markers
  \<open>edg\<close> and \<open>chrome\<close> that also has the marker \<open>firefox\<close> is classified by the second
  rule, as Firefox.
\<close>

theorem edge_marker_counterexample:
  "includes_str (toLowerCase ''firefox chrome edg'') ''edg'' \<and>
   includes_str (toLowerCase ''firefox chrome edg'') ''chrome'' \<and>
   di_browser (parseUserAgent ''firefox chrome edg'') = ''Firefox''"
  by code_simp

text \<open>
  C8, amended: for every user-agent string the browser is the result of the first rule
  of the ordered table that matches the lower-cased string (Chrome marker and no Edge
  marker: Chrome; Firefox marker: Firefox; Safari marker and no Chrome marker: Safari;
  Edge marker: Edge; Opera marker: Opera), and \<open>Unknown\<close> when none does; in particular a
  string with the Chrome marker and no Edge marker is Chrome, and a string with both the
  \<open>edg\<close> and \<open>chrome\<close> markers and no \<open>firefox\<close> marker is Edge.
\<close>

theorem browser_first_match:
  "di_browser (parseUserAgent s) = first_match spec_browser_rules ''Unknown'' (toLowerCase s) \<and>
   (includes_str (toLowerCase s) ''chrome'' \<and> \<not> includes_str (toLowerCase s) ''edg'' \<longrightarrow>
      di_browser (parseUserAgent s) = ''Chrome'') \<and>
   (includes_str (toLowerCase s) ''edg'' \<and> includes_str (toLowerCase s) ''chrome'' \<and>
    \<not> includes_str (toLowerCase s) ''firefox'' \<longrightarrow>
      di_browser (parseUserAgent s) = ''Edge'')"
  by (simp add: parseUserAgent_def spec_browser_rules_def Let_def)

text \<open>
  The amended C8 at a user-agent string of the Edge browser.
\<close>

theorem browser_first_match_witness:
  "includes_str (toLowerCase ''Mozilla/5.0 Chrome/120.0.0.0 Safari/537.36 Edg/120.0.0.0'') ''edg'' \<and>
   includes_str (toLowerCase ''Mozilla/5.0 Chrome/120.0.0.0 Safari/537.36 Edg/120.0.0.0'') ''chrome'' \<and>
   \<not> includes_str (toLowerCase ''Mozilla/5.0 Chrome/120.0.0.0 Safari/537.36 Edg/120.0.0.0'') ''firefox'' \<and>
   di_browser (parseUserAgent ''Mozilla/5.0 Chrome/120.0.0.0 Safari/537.36 Edg/120.0.0.0'') = ''Edge''"
proof -
  have h: "includes_str (toLowerCase ''Mozilla/5.0 Chrome/120.0.0.0 Safari/537.36 Edg/120.0.0.0'') ''edg'' \<and>
   includes_str (toLowerCase ''Mozilla/5.0 Chrome/120.0.0.0 Safari/537.36 Edg/120.0.0.0'') ''chrome'' \<and>
   \<not> includes_str (toLowerCase ''Mozilla/5.0 Chrome/120.0.0.0 Safari/537.36 Edg/120.0.0.0'') ''firefox''"
    by code_simp
  show ?thesis
    using h browser_first_match [of "''Mozilla/5.0 Chrome/120.0.0.0 Safari/537.36 Edg/120.0.0.0''"]
    by blast
qed

section \<open>Analytics: no answer\<close>

lemma getClickStats_throws:
  "getClickStats st linkId = Inl (if truthy_str linkId then SqliteError else BindError)"
  by (simp add: getClickStats_def)

lemma GET_analytics_fails:
  "GET_analytics parseInt st now linkId_param days_param = Inl InternalError"
  by (simp add: GET_analytics_def getClickStats_throws Let_def)

text \<open>
  C2, evaluated where the code fails it: get-analytics on an empty visit set, with no
  link named and the default window of 30 days, whatever \<open>parseInt\<close> makes of the
  parameter. The claim has the average be zero and not an error; the route answers an
  internal error, as \<^verbatim>\<open>getClickStats\<close> throws, and no average is returned.
\<close>

theorem analytics_average_internal_error:
  "GET_analytics parseInt \<lparr>links = [], visitors = []\<rparr> 1700000000000 None None =
     Inl InternalError"
  by (simp add: GET_analytics_def getClickStats_def truthy_str_def or_str_def Let_def)

text \<open>
  C5, evaluated where the code fails it: get-analytics for a link with two recorded
  visits. The claim has the recent activity list them, the latest first; the route
  answers an internal error, as \<^verbatim>\<open>getClickStats\<close> throws when it prepares its second
  statement, and no recent activity is returned.
\<close>

theorem analytics_recent_activity_internal_error:
  "GET_analytics parseInt
     \<lparr>links = [\<lparr>lid = ''id1'', link_alias = ''promo'',
                 original_url = ''https://example.com/landing'',
                 description = None, created_at = 1000, expires_at = None,
                 click_count = 2, is_active = True\<rparr>],
       visitors =
         [\<lparr>vid = ''v1'', link_id = ''id1'', ip_address = ''203.0.113.7'',
            latitude = None, longitude = None, country = None, city = None,
            device = Some ''Desktop'', browser = Some ''Chrome'', user_agent = None,
            visited_at = 2001\<rparr>,
          \<lparr>vid = ''v2'', link_id = ''id1'', ip_address = ''203.0.113.8'',
            latitude = None, longitude = None, country = None, city = None,
            device = Some ''Mobile'', browser = Some ''Safari'', user_agent = None,
            visited_at = 3001\<rparr>]\<rparr>
     1700000000000 (Some ''id1'') None =
     Inl InternalError"
  by (simp add: GET_analytics_def getClickStats_def truthy_str_def or_str_def Let_def)

end
